theory Spec2Isabelle
  imports Complex_Main
begin

section \<open>The scroll-driven scene (ParallaxScene.jsx)\<close>

text \<open>
  JavaScript numbers are modelled as reals. Every constant of the component is written as
  in the source (\<open>0.8\<close>, \<open>1.5\<close>, ...). The component keeps one piece of state,
  \<open>scrollProgress\<close>, written only by the scroll handler.
\<close>

subsection \<open>The scroll handler\<close>

text \<open>
  What \<open>handleScroll\<close> reads from the browser: \<open>window.pageYOffset\<close>,
  \<open>document.documentElement.scrollTop\<close>, \<open>document.documentElement.scrollHeight\<close>
  and \<open>window.innerHeight\<close>.
\<close>

record scroll_sample =
  pageYOffset :: real
  docScrollTop :: real
  docScrollHeight :: real
  innerHeight :: real

text \<open>\<open>a || b\<close> on numbers: \<open>b\<close> when \<open>a\<close> is \<open>0\<close>, else \<open>a\<close>.\<close>

definition js_or :: "real \<Rightarrow> real \<Rightarrow> real" where
  "js_or a b = (if a \<noteq> 0 then a else b)"

text \<open>The value handed to \<open>setScrollProgress\<close>, that is the next \<open>scrollProgress\<close>.\<close>

definition handleScroll :: "scroll_sample \<Rightarrow> real" where
  "handleScroll w =
     (let scrollTop = js_or (pageYOffset w) (docScrollTop w);
          scrollHeight = docScrollHeight w - innerHeight w;
          progress = (if scrollHeight > 0 then scrollTop / scrollHeight else 0)
      in min (max progress 0) 1)"

subsection \<open>Values derived from the scroll progress\<close>

definition skyOpacity :: "real \<Rightarrow> real" where
  "skyOpacity scrollProgress = 1 - (scrollProgress * 0.8)"

definition mountainFarY :: "real \<Rightarrow> real" where
  "mountainFarY scrollProgress = scrollProgress * 10"

definition mountainMidY :: "real \<Rightarrow> real" where
  "mountainMidY scrollProgress = scrollProgress * 15"

definition mountainCloseY :: "real \<Rightarrow> real" where
  "mountainCloseY scrollProgress = scrollProgress * 20"

definition waterfallScale :: "real \<Rightarrow> real" where
  "waterfallScale scrollProgress = 1 + (scrollProgress * 0.2)"


definition futuristicElementsOpacity :: "real \<Rightarrow> real" where
  "futuristicElementsOpacity scrollProgress = min (0.2 + (scrollProgress * 0.8)) 1"



definition moonOpacity :: "real \<Rightarrow> real" where
  "moonOpacity scrollProgress = min (scrollProgress * 2) 1"

definition starsOpacity :: "real \<Rightarrow> real" where
  "starsOpacity scrollProgress = min (scrollProgress * 1.5) 1"

subsection \<open>The sky gradient\<close>

text \<open>The three gradient strings of \<open>getSkyGradient\<close>, named after the phase they paint.\<close>

definition day_gradient :: string where
  "day_gradient = ''linear-gradient(to bottom, #1e40af 0%, #3b82f6 50%, #93c5fd 100%)''"

definition dusk_gradient :: string where
  "dusk_gradient = ''linear-gradient(to bottom, #1e3a8a 0%, #1e40af 50%, #3b82f6 100%)''"

definition night_gradient :: string where
  "night_gradient = ''linear-gradient(to bottom, #0f172a 0%, #1e293b 50%, #334155 100%)''"

definition getSkyGradient :: "real \<Rightarrow> string" where
  "getSkyGradient scrollProgress =
     (if scrollProgress < 0.5 then day_gradient
      else if scrollProgress < 1 then dusk_gradient
      else night_gradient)"

subsection \<open>The particle fields\<close>








subsection \<open>One render of the component\<close>





section \<open>The conversation store (ChatContext.jsx)\<close>

subsection \<open>Strings\<close>

text \<open>
  Strings are lists of 8-bit characters, read as Latin-1 code units. \<open>trim\<close> removes
  the white space and line terminators of that range from both ends; \<open>toLowerCase\<close>
  maps \<open>A\<close>..\<open>Z\<close> and the accented capitals to their small letters.
\<close>

definition is_white_space :: "char \<Rightarrow> bool" where
  "is_white_space c = ((of_char c :: nat) \<in> {9, 10, 11, 12, 13, 32, 160})"

definition trim :: "string \<Rightarrow> string" where
  "trim s = rev (dropWhile is_white_space (rev (dropWhile is_white_space s)))"

definition toLowerCase_char :: "char \<Rightarrow> char" where
  "toLowerCase_char c =
     (let n = (of_char c :: nat)
      in if (65 \<le> n \<and> n \<le> 90) \<or> (192 \<le> n \<and> n \<le> 222 \<and> n \<noteq> 215)
         then char_of (n + 32) else c)"

definition toLowerCase :: "string \<Rightarrow> string" where
  "toLowerCase s = map toLowerCase_char s"

fun starts_with :: "string \<Rightarrow> string \<Rightarrow> bool" where
  "starts_with s [] = True"
| "starts_with [] (p # ps) = False"
| "starts_with (c # cs) (p # ps) = (c = p \<and> starts_with cs ps)"

text \<open>\<open>s.includes(pat)\<close>: \<open>pat\<close> occurs in \<open>s\<close> at some position.\<close>

fun str_includes :: "string \<Rightarrow> string \<Rightarrow> bool" where
  "str_includes [] pat = starts_with [] pat"
| "str_includes (c # cs) pat = (starts_with (c # cs) pat \<or> str_includes cs pat)"

subsection \<open>Messages and state\<close>

datatype sender = User | Bot

text \<open>
  A message; \<open>timestamp\<close> is the instant of \<open>new Date()\<close> in milliseconds, which the
  source stores as its ISO string.
\<close>

record message =
  id_msg :: int
  text_msg :: string
  sender :: sender
  timestamp :: int

record chat_state =
  messages :: "message list"
  isOpen :: bool
  isLoading :: bool

definition welcome_text :: string where
  "welcome_text = ''Welcome to Neo Japan. How may I assist you today?''"

text \<open>The state \<open>ChatProvider\<close> starts with, mounted at instant \<open>stamp\<close>.\<close>

definition ChatProvider_init :: "int \<Rightarrow> chat_state" where
  "ChatProvider_init stamp =
     \<lparr>messages = [\<lparr>id_msg = 1, text_msg = welcome_text, sender = Bot, timestamp = stamp\<rparr>],
      isOpen = False, isLoading = False\<rparr>"

subsection \<open>The mock responses\<close>

definition hello_response :: string where
  "hello_response = ''Hello! Welcome to Neo Japan. How can I help you explore our world?''"

definition japan_response :: string where
  "japan_response = ''Japan is known for its unique blend of ancient traditions and futuristic technology. Our landscape brings this duality to life.''"

definition water_response :: string where
  "water_response = ''The waterfalls you see represent the flow of time, connecting the traditional past with the technological future.''"

definition future_response :: string where
  "future_response = ''The futuristic elements symbolize Japan'' @ [CHR 0x27] @ ''s innovation and technological advancements, creating harmony with natural beauty.''"

definition default_response :: string where
  "default_response = ''Thank you for your interest. As you explore our Neo Japan landscape, feel free to ask about the waterfalls, mountains, technology, or any element you see.''"

definition apology_text :: string where
  "apology_text = ''I apologize, but I'' @ [CHR 0x27] @ ''m having trouble connecting. Please try again later.''"

text \<open>The chain of conditionals that picks \<open>response\<close> in \<open>sendMessage\<close>.\<close>

definition mock_response :: "string \<Rightarrow> string" where
  "mock_response text =
     (if str_includes (toLowerCase text) ''hello'' \<or> str_includes (toLowerCase text) ''hi''
      then hello_response
      else if str_includes (toLowerCase text) ''japan'' \<or> str_includes (toLowerCase text) ''japanese''
      then japan_response
      else if str_includes (toLowerCase text) ''waterfall'' \<or> str_includes (toLowerCase text) ''water''
      then water_response
      else if str_includes (toLowerCase text) ''future'' \<or> str_includes (toLowerCase text) ''technology''
      then future_response
      else default_response)"

text \<open>
  The policy as the specification words it: an ordered list of rules, each a list of
  keywords and a response; the first rule with a keyword that occurs in the lowercased
  input wins, and a default answers when none does.
\<close>

fun first_match :: "(string list \<times> string) list \<Rightarrow> string \<Rightarrow> string \<Rightarrow> string" where
  "first_match [] dflt s = dflt"
| "first_match ((kws, r) # rules) dflt s =
     (if list_ex (str_includes s) kws then r else first_match rules dflt s)"

definition keyword_rules :: "(string list \<times> string) list" where
  "keyword_rules =
     [([''hello'', ''hi''], hello_response),
      ([''japan''], japan_response),
      ([''water''], water_response),
      ([''future'', ''technology''], future_response)]"

definition keyword_policy :: "string \<Rightarrow> string" where
  "keyword_policy text = first_match keyword_rules default_response (toLowerCase text)"

subsection \<open>sendMessage\<close>

text \<open>
  \<open>sendMessage\<close> is an async function: it runs up to its \<open>await\<close>, and the rest runs
  when the one-second timer settles the promise. \<open>sendMessage\<close> below is the first part:
  \<open>now\<close> is what \<open>Date.now()\<close> returns, \<open>stamp\<close> the instant of \<open>new Date()\<close>. It
  returns the new state and, when it reached the \<open>await\<close>, the text its continuation
  holds (\<open>None\<close> when it returned at the guard).
\<close>

definition sendMessage :: "string \<Rightarrow> int \<Rightarrow> int \<Rightarrow> chat_state \<Rightarrow> chat_state \<times> string option" where
  "sendMessage text now stamp st =
     (if trim text = [] then (st, None)
      else
        let userMessage = \<lparr>id_msg = now, text_msg = text, sender = User, timestamp = stamp\<rparr>;
            st1 = st\<lparr>messages := messages st @ [userMessage]\<rparr>;
            st2 = st1\<lparr>isLoading := True\<rparr>
        in (st2, Some text))"

text \<open>How the awaited promise settles: resolved, or rejected with an error.\<close>

datatype js_error = Error string

datatype settled = Resolved | Rejected js_error

text \<open>
  The rest of the \<open>try\<close> block after the \<open>await\<close>: a rejection is thrown (the second
  component), otherwise the bot message is appended.
\<close>

definition sendMessage_try :: "string \<Rightarrow> settled \<Rightarrow> int \<Rightarrow> int \<Rightarrow> chat_state \<Rightarrow> chat_state \<times> js_error option" where
  "sendMessage_try text outcome now stamp st =
     (case outcome of
        Rejected e \<Rightarrow> (st, Some e)
      | Resolved \<Rightarrow>
          let response = mock_response text;
              botMessage = \<lparr>id_msg = now + 1, text_msg = response, sender = Bot, timestamp = stamp\<rparr>
          in (st\<lparr>messages := messages st @ [botMessage]\<rparr>, None))"

text \<open>The \<open>catch\<close> block: it handles every thrown error by appending the apology.\<close>

definition sendMessage_catch :: "int \<Rightarrow> int \<Rightarrow> chat_state \<times> js_error option \<Rightarrow> chat_state \<times> js_error option" where
  "sendMessage_catch now stamp r =
     (case r of
        (st, None) \<Rightarrow> (st, None)
      | (st, Some error) \<Rightarrow>
          let errorMessage = \<lparr>id_msg = now + 1, text_msg = apology_text, sender = Bot, timestamp = stamp\<rparr>
          in (st\<lparr>messages := messages st @ [errorMessage]\<rparr>, None))"

text \<open>The \<open>finally\<close> block runs on both paths and passes on what is still thrown.\<close>

definition sendMessage_finally :: "chat_state \<times> js_error option \<Rightarrow> chat_state \<times> js_error option" where
  "sendMessage_finally r = (case r of (st, thrown) \<Rightarrow> (st\<lparr>isLoading := False\<rparr>, thrown))"

text \<open>
  The continuation of \<open>sendMessage text\<close> once the promise has settled: the state after
  it, and the error that escapes to the caller, if any.
\<close>

definition sendMessage_resume :: "string \<Rightarrow> settled \<Rightarrow> int \<Rightarrow> int \<Rightarrow> chat_state \<Rightarrow> chat_state \<times> js_error option" where
  "sendMessage_resume text outcome now stamp st =
     sendMessage_finally (sendMessage_catch now stamp (sendMessage_try text outcome now stamp st))"

subsection \<open>toggleChat and clearChat\<close>

definition toggleChat :: "chat_state \<Rightarrow> chat_state" where
  "toggleChat st = st\<lparr>isOpen := \<not> isOpen st\<rparr>"

definition clearChat :: "int \<Rightarrow> chat_state \<Rightarrow> chat_state" where
  "clearChat stamp st =
     st\<lparr>messages := [\<lparr>id_msg = 1, text_msg = welcome_text, sender = Bot, timestamp = stamp\<rparr>]\<rparr>"

subsection \<open>The store under a schedule of events\<close>

text \<open>
  The provider with its pending continuations and the clock. A pending continuation is
  the text it holds and the instant its timer is due, 1000 ms after the submit.
\<close>

record store =
  chat :: chat_state
  pending :: "(string \<times> int) list"
  clock :: int

datatype event =
    Submit string
  | TimerFires nat settled
  | ToggleChat
  | ClearChat
  | Tick nat

definition drop_nth :: "nat \<Rightarrow> 'a list \<Rightarrow> 'a list" where
  "drop_nth i xs = take i xs @ drop (Suc i) xs"

text \<open>
  One event: a call of \<open>sendMessage\<close>, \<open>toggleChat\<close> or \<open>clearChat\<close> at the current
  clock, the timer of the \<open>i\<close>-th pending continuation firing (ignored before it is due),
  or the clock advancing by some milliseconds.
\<close>

fun step :: "event \<Rightarrow> store \<Rightarrow> store" where
  "step (Submit text) s =
     (case sendMessage text (clock s) (clock s) (chat s) of
        (c, None) \<Rightarrow> s\<lparr>chat := c\<rparr>
      | (c, Some t) \<Rightarrow> s\<lparr>chat := c, pending := pending s @ [(t, clock s + 1000)]\<rparr>)"
| "step (TimerFires i outcome) s =
     (if i < length (pending s) \<and> snd (pending s ! i) \<le> clock s
      then s\<lparr>chat := fst (sendMessage_resume (fst (pending s ! i)) outcome (clock s) (clock s) (chat s)),
             pending := drop_nth i (pending s)\<rparr>
      else s)"
| "step ToggleChat s = s\<lparr>chat := toggleChat (chat s)\<rparr>"
| "step ClearChat s = s\<lparr>chat := clearChat (clock s) (chat s)\<rparr>"
| "step (Tick d) s = s\<lparr>clock := clock s + int d\<rparr>"

fun run :: "event list \<Rightarrow> store \<Rightarrow> store" where
  "run [] s = s"
| "run (e # es) s = run es (step e s)"

text \<open>The store when the provider mounts at clock \<open>t0\<close>.\<close>

definition store_init :: "int \<Rightarrow> store" where
  "store_init t0 = \<lparr>chat = ChatProvider_init t0, pending = [], clock = t0\<rparr>"

definition transcript_ids :: "store \<Rightarrow> int list" where
  "transcript_ids s = map id_msg (messages (chat s))"

section \<open>Properties of the scene\<close>

subsection \<open>Sky phase\<close>

text \<open>
  C2. The sky gradient is chosen by comparing the progress with the two breakpoints 0.5
  and 1, a tie going to the later phase: below 0.5 the day gradient, from 0.5 up to but
  not reaching 1 the dusk gradient, from 1 on the night gradient. So 0.49 gives day,
  0.5 and 0.99 give dusk and 1.0 gives night, and the three gradients are three
  different fixed strings.
\<close>

theorem getSkyGradient_phases:
  "getSkyGradient p =
     (if p < 0.5 then day_gradient else if p < 1 then dusk_gradient else night_gradient)
   \<and> getSkyGradient 0.49 = day_gradient
   \<and> getSkyGradient 0.5 = dusk_gradient
   \<and> getSkyGradient 0.99 = dusk_gradient
   \<and> getSkyGradient 1.0 = night_gradient
   \<and> day_gradient \<noteq> dusk_gradient
   \<and> dusk_gradient \<noteq> night_gradient
   \<and> day_gradient \<noteq> night_gradient"
  by (simp add: getSkyGradient_def day_gradient_def dusk_gradient_def night_gradient_def)

subsection \<open>Parallax depth ordering\<close>

text \<open>
  C3. For progress values \<open>p1 < p2\<close> in \<open>[0, 1]\<close> each of the far, mid and close
  mountain offsets at \<open>p1\<close> is at most the offset at \<open>p2\<close>. For one progress \<open>p\<close> in
  \<open>[0, 1]\<close> the far offset is at most the mid offset, which is at most the close
  offset, and when \<open>p > 0\<close> the far layer moves strictly less than the mid and the
  close layer (and the mid layer strictly less than the close one).
\<close>

theorem mountain_depth_ordering:
  "(0 \<le> p1 \<and> p1 < p2 \<and> p2 \<le> 1 \<longrightarrow>
      mountainFarY p1 \<le> mountainFarY p2 \<and>
      mountainMidY p1 \<le> mountainMidY p2 \<and>
      mountainCloseY p1 \<le> mountainCloseY p2)
   \<and> (0 \<le> p \<and> p \<le> 1 \<longrightarrow>
      mountainFarY p \<le> mountainMidY p \<and> mountainMidY p \<le> mountainCloseY p \<and>
      (0 < p \<longrightarrow>
         mountainFarY p < mountainMidY p \<and> mountainFarY p < mountainCloseY p \<and>
         mountainMidY p < mountainCloseY p))"
  by (simp add: mountainFarY_def mountainMidY_def mountainCloseY_def)

theorem mountain_depth_ordering_witness:
  "mountainFarY (1/4) \<le> mountainFarY (3/4)
   \<and> mountainMidY (1/4) \<le> mountainMidY (3/4)
   \<and> mountainCloseY (1/4) \<le> mountainCloseY (3/4)
   \<and> mountainFarY (3/4) \<le> mountainMidY (3/4)
   \<and> mountainMidY (3/4) \<le> mountainCloseY (3/4)
   \<and> mountainFarY (3/4) < mountainMidY (3/4)
   \<and> mountainFarY (3/4) < mountainCloseY (3/4)
   \<and> mountainMidY (3/4) < mountainCloseY (3/4)"
  using mountain_depth_ordering [of "1/4" "3/4" "3/4"] by simp

subsection \<open>Ranges of the derived fields\<close>

text \<open>
  C4. For a progress in \<open>[0, 1]\<close> the sky opacity, the moon opacity and the star-field
  opacity lie in \<open>[0, 1]\<close>, the opacity of the futuristic overlay lies in \<open>[0.2, 1]\<close>,
  and the waterfall scale is at least 1.
\<close>

theorem derived_fields_in_range:
  assumes "0 \<le> p" and "p \<le> 1"
  shows "0 \<le> skyOpacity p \<and> skyOpacity p \<le> 1
    \<and> 0 \<le> moonOpacity p \<and> moonOpacity p \<le> 1
    \<and> 0 \<le> starsOpacity p \<and> starsOpacity p \<le> 1
    \<and> 0.2 \<le> futuristicElementsOpacity p \<and> futuristicElementsOpacity p \<le> 1
    \<and> 1 \<le> waterfallScale p"
  using assms
  by (simp add: skyOpacity_def moonOpacity_def starsOpacity_def
      futuristicElementsOpacity_def waterfallScale_def)

theorem derived_fields_in_range_witness:
  "(0::real) \<le> 3/4 \<and> (3/4::real) \<le> 1
    \<and> 0 \<le> skyOpacity (3/4) \<and> skyOpacity (3/4) \<le> 1
    \<and> 0 \<le> moonOpacity (3/4) \<and> moonOpacity (3/4) \<le> 1
    \<and> 0 \<le> starsOpacity (3/4) \<and> starsOpacity (3/4) \<le> 1
    \<and> 0.2 \<le> futuristicElementsOpacity (3/4) \<and> futuristicElementsOpacity (3/4) \<le> 1
    \<and> 1 \<le> waterfallScale (3/4)"
  using derived_fields_in_range [of "3/4"] by simp

subsection \<open>Normalisation of the scroll sample\<close>

text \<open>
  C5. For every scroll sample, whatever the offsets and extents, the scroll handler
  stores a progress in \<open>[0, 1]\<close>. With \<open>scrollTop\<close> the page offset (or, when that
  is 0, the scroll top of the document element) and the extent the document height
  minus the window height: when the extent is zero or negative the handler stores 0,
  and no division takes place; when the extent is positive it stores
  \<open>scrollTop / extent\<close> clamped to \<open>[0, 1]\<close>, that is the quotient itself when
  \<open>0 \<le> scrollTop \<le> extent\<close>, 0 when \<open>scrollTop\<close> is negative and 1 when
  \<open>scrollTop\<close> exceeds the extent.
\<close>

theorem handleScroll_clamped:
  "(let scrollTop = (if pageYOffset w \<noteq> 0 then pageYOffset w else docScrollTop w);
        extent = docScrollHeight w - innerHeight w
    in 0 \<le> handleScroll w \<and> handleScroll w \<le> 1
     \<and> (extent \<le> 0 \<longrightarrow> handleScroll w = 0)
     \<and> (0 < extent \<longrightarrow>
          handleScroll w = min (max (scrollTop / extent) 0) 1
          \<and> (0 \<le> scrollTop \<and> scrollTop \<le> extent \<longrightarrow> handleScroll w = scrollTop / extent)
          \<and> (scrollTop < 0 \<longrightarrow> handleScroll w = 0)
          \<and> (extent < scrollTop \<longrightarrow> handleScroll w = 1)))"
proof -
  define scrollTop where "scrollTop = (if pageYOffset w \<noteq> 0 then pageYOffset w else docScrollTop w)"
  define extent where "extent = docScrollHeight w - innerHeight w"
  have H: "handleScroll w = min (max (if extent > 0 then scrollTop / extent else 0) 0) 1"
    by (simp add: handleScroll_def js_or_def Let_def scrollTop_def extent_def)
  have range: "0 \<le> handleScroll w \<and> handleScroll w \<le> 1"
    by (simp add: H)
  have guard: "extent \<le> 0 \<longrightarrow> handleScroll w = 0"
    by (simp add: H)
  have eq: "0 < extent \<longrightarrow> handleScroll w = min (max (scrollTop / extent) 0) 1"
    by (simp add: H)
  have inside: "0 < extent \<longrightarrow> 0 \<le> scrollTop \<and> scrollTop \<le> extent \<longrightarrow> handleScroll w = scrollTop / extent"
    by (simp add: H)
  have below: "0 < extent \<longrightarrow> scrollTop < 0 \<longrightarrow> handleScroll w = 0"
  proof (intro impI)
    assume e: "0 < extent" and t: "scrollTop < 0"
    then have "scrollTop / extent < 0" by (simp add: divide_neg_pos)
    with e show "handleScroll w = 0" by (simp add: H)
  qed
  have above: "0 < extent \<longrightarrow> extent < scrollTop \<longrightarrow> handleScroll w = 1"
  proof (intro impI)
    assume e: "0 < extent" and t: "extent < scrollTop"
    then have "1 < scrollTop / extent" by simp
    with e show "handleScroll w = 1" by (simp add: H)
  qed
  show ?thesis
    unfolding Let_def
    using range guard eq inside below above
    by (simp add: scrollTop_def extent_def)
qed

theorem handleScroll_clamped_witness:
  "handleScroll \<lparr>pageYOffset = 250, docScrollTop = 250, docScrollHeight = 600, innerHeight = 800\<rparr> = 0
   \<and> handleScroll \<lparr>pageYOffset = 500, docScrollTop = 500, docScrollHeight = 1800, innerHeight = 800\<rparr> = 1/2
   \<and> handleScroll \<lparr>pageYOffset = 0, docScrollTop = 300, docScrollHeight = 2000, innerHeight = 800\<rparr> = 1/4
   \<and> handleScroll \<lparr>pageYOffset = 5000, docScrollTop = 5000, docScrollHeight = 2000, innerHeight = 800\<rparr> = 1
   \<and> handleScroll \<lparr>pageYOffset = -30, docScrollTop = -30, docScrollHeight = 2000, innerHeight = 800\<rparr> = 0"
  using
    handleScroll_clamped
      [of "\<lparr>pageYOffset = 250, docScrollTop = 250, docScrollHeight = 600, innerHeight = 800\<rparr>"]
    handleScroll_clamped
      [of "\<lparr>pageYOffset = 500, docScrollTop = 500, docScrollHeight = 1800, innerHeight = 800\<rparr>"]
    handleScroll_clamped
      [of "\<lparr>pageYOffset = 0, docScrollTop = 300, docScrollHeight = 2000, innerHeight = 800\<rparr>"]
    handleScroll_clamped
      [of "\<lparr>pageYOffset = 5000, docScrollTop = 5000, docScrollHeight = 2000, innerHeight = 800\<rparr>"]
    handleScroll_clamped
      [of "\<lparr>pageYOffset = -30, docScrollTop = -30, docScrollHeight = 2000, innerHeight = 800\<rparr>"]
  by simp

subsection \<open>The particle fields\<close>















section \<open>Properties of the conversation store\<close>

subsection \<open>The keyword policy\<close>

text \<open>
  The second keyword of the Japan rule and the first of the water rule are subsumed:
  a text that includes \<open>japanese\<close> includes \<open>japan\<close>, and one that includes
  \<open>waterfall\<close> includes \<open>water\<close>. So the chain of conditionals is the ordered
  first-match policy over the four rules.
\<close>

lemma starts_with_append: "starts_with s (p @ q) \<Longrightarrow> starts_with s p"
  by (induction s p rule: starts_with.induct) auto

lemma str_includes_append: "str_includes s (p @ q) \<Longrightarrow> str_includes s p"
proof (induction s)
  case Nil
  then show ?case using starts_with_append by simp
next
  case (Cons c cs)
  then show ?case using starts_with_append [of "c # cs" p q] by auto
qed

lemma includes_japanese: "str_includes s ''japanese'' \<Longrightarrow> str_includes s ''japan''"
  using str_includes_append [of s "''japan''" "''ese''"] by simp

lemma includes_waterfall: "str_includes s ''waterfall'' \<Longrightarrow> str_includes s ''water''"
  using str_includes_append [of s "''water''" "''fall''"] by simp

lemma mock_response_policy: "mock_response text = keyword_policy text"
  using includes_japanese [of "toLowerCase text"] includes_waterfall [of "toLowerCase text"]
  by (auto simp add: mock_response_def keyword_policy_def keyword_rules_def)

subsection \<open>Submitting a message\<close>

text \<open>
  C6. For a text whose trim is not empty, \<open>sendMessage\<close> at once appends exactly one
  user message (with that text) and sets \<open>isLoading\<close>, and leaves one continuation
  pending, due 1000 ms later. When the timer has resolved, the continuation appends
  exactly one bot message, whose text is the answer of the ordered first-match keyword
  policy over the lowercased input, and clears \<open>isLoading\<close>; no error escapes. The
  conditionals of the code compute that policy. \<open>Hello there\<close> gets the greeting
  answer, \<open>Tell me about Japan\<close> the Japan answer, which differs from the greeting and
  from the default answer.
\<close>

theorem sendMessage_contract:
  assumes "trim text \<noteq> []"
  shows "sendMessage text now stamp st =
      (st\<lparr>messages := messages st @ [\<lparr>id_msg = now, text_msg = text, sender = User, timestamp = stamp\<rparr>],
          isLoading := True\<rparr>, Some text)
    \<and> step (Submit text) s =
      s\<lparr>chat := (chat s)\<lparr>messages := messages (chat s) @
                  [\<lparr>id_msg = clock s, text_msg = text, sender = User, timestamp = clock s\<rparr>],
                isLoading := True\<rparr>,
        pending := pending s @ [(text, clock s + 1000)]\<rparr>
    \<and> sendMessage_resume text Resolved now' stamp' st' =
      (st'\<lparr>messages := messages st' @
            [\<lparr>id_msg = now' + 1, text_msg = keyword_policy text, sender = Bot, timestamp = stamp'\<rparr>],
          isLoading := False\<rparr>, None)
    \<and> mock_response text = keyword_policy text
    \<and> mock_response ''Hello there'' = hello_response
    \<and> mock_response ''Tell me about Japan'' = japan_response
    \<and> japan_response \<noteq> hello_response
    \<and> japan_response \<noteq> default_response"
proof -
  have a: "sendMessage text now stamp st =
      (st\<lparr>messages := messages st @ [\<lparr>id_msg = now, text_msg = text, sender = User, timestamp = stamp\<rparr>],
          isLoading := True\<rparr>, Some text)" for now stamp st
    using assms by (simp add: sendMessage_def)
  have b: "step (Submit text) s =
      s\<lparr>chat := (chat s)\<lparr>messages := messages (chat s) @
                  [\<lparr>id_msg = clock s, text_msg = text, sender = User, timestamp = clock s\<rparr>],
                isLoading := True\<rparr>,
        pending := pending s @ [(text, clock s + 1000)]\<rparr>"
    by (simp add: a)
  have c: "sendMessage_resume text Resolved now' stamp' st' =
      (st'\<lparr>messages := messages st' @
            [\<lparr>id_msg = now' + 1, text_msg = keyword_policy text, sender = Bot, timestamp = stamp'\<rparr>],
          isLoading := False\<rparr>, None)"
    by (simp add: sendMessage_resume_def sendMessage_try_def sendMessage_catch_def
        sendMessage_finally_def mock_response_policy)
  have d: "mock_response ''Hello there'' = hello_response"
    by code_simp
  have e: "mock_response ''Tell me about Japan'' = japan_response"
    by code_simp
  have f: "japan_response \<noteq> hello_response \<and> japan_response \<noteq> default_response"
    by (simp add: japan_response_def hello_response_def default_response_def)
  show ?thesis
    using a b c d e f mock_response_policy by blast
qed

theorem sendMessage_contract_witness:
  "trim ''Hello there'' \<noteq> []
   \<and> messages (chat (run [Submit ''Hello there'', Tick 1000, TimerFires 0 Resolved] (store_init 5000))) =
      [\<lparr>id_msg = 1, text_msg = welcome_text, sender = Bot, timestamp = 5000\<rparr>,
       \<lparr>id_msg = 5000, text_msg = ''Hello there'', sender = User, timestamp = 5000\<rparr>,
       \<lparr>id_msg = 6001, text_msg = hello_response, sender = Bot, timestamp = 6000\<rparr>]
   \<and> isLoading (chat (run [Submit ''Hello there''] (store_init 5000)))
   \<and> isLoading (chat (run [Submit ''Hello there'', Tick 1000, TimerFires 0 Resolved] (store_init 5000))) = False"
proof -
  have h: "trim ''Hello there'' \<noteq> []" by code_simp
  note b = sendMessage_contract [OF h, THEN conjunct2, THEN conjunct1]
  note c = sendMessage_contract [OF h, THEN conjunct2, THEN conjunct2, THEN conjunct1]
  note p = sendMessage_contract [OF h, THEN conjunct2, THEN conjunct2, THEN conjunct2, THEN conjunct1]
  note g = sendMessage_contract [OF h, THEN conjunct2, THEN conjunct2, THEN conjunct2,
      THEN conjunct2, THEN conjunct1]
  have d: "keyword_policy ''Hello there'' = hello_response"
    using p g by simp
  show ?thesis
    using h by (simp del: step.simps(1) add: b c d store_init_def ChatProvider_init_def drop_nth_def)
qed

text \<open>
  C7. For a text whose trim is empty, \<open>sendMessage\<close> returns at its guard: the state
  (transcript, \<open>isLoading\<close>, \<open>isOpen\<close>) is unchanged and no continuation is left
  pending, so no message of either sender is ever appended for it.
\<close>

theorem sendMessage_blank_noop:
  assumes "trim text = []"
  shows "sendMessage text now stamp st = (st, None) \<and> step (Submit text) s = s"
  using assms by (simp add: sendMessage_def)

theorem sendMessage_blank_noop_witness:
  "trim '''' = [] \<and> trim ''   '' = []
   \<and> sendMessage '''' 5000 5000 (ChatProvider_init 1) = (ChatProvider_init 1, None)
   \<and> sendMessage ''   '' 5000 5000 (ChatProvider_init 1) = (ChatProvider_init 1, None)
   \<and> step (Submit ''   '') (store_init 5000) = store_init 5000"
proof -
  have e: "trim '''' = []" by (simp add: trim_def)
  have b: "trim ''   '' = []" by (simp add: trim_def is_white_space_def)
  show ?thesis
    using e b sendMessage_blank_noop [OF e, of 5000 5000 "ChatProvider_init 1" "store_init 5000"]
      sendMessage_blank_noop [OF b, of 5000 5000 "ChatProvider_init 1" "store_init 5000"]
    by simp
qed

subsection \<open>Failure of the awaited step\<close>

text \<open>
  C8. When the awaited step is rejected, the continuation appends exactly one bot
  message with the fixed apology text and clears \<open>isLoading\<close>. Whatever the outcome,
  the continuation appends exactly one bot message after the transcript it found,
  ends with \<open>isLoading\<close> false and lets no error escape; in the store, a timer that
  fires when due leaves \<open>isLoading\<close> false.
\<close>

theorem sendMessage_failure_recovery:
  "sendMessage_resume text (Rejected e) now stamp st =
      (st\<lparr>messages := messages st @
            [\<lparr>id_msg = now + 1, text_msg = apology_text, sender = Bot, timestamp = stamp\<rparr>],
          isLoading := False\<rparr>, None)
   \<and> isLoading (fst (sendMessage_resume text outcome now stamp st)) = False
   \<and> snd (sendMessage_resume text outcome now stamp st) = None
   \<and> length (messages (fst (sendMessage_resume text outcome now stamp st))) = Suc (length (messages st))
   \<and> butlast (messages (fst (sendMessage_resume text outcome now stamp st))) = messages st
   \<and> sender (last (messages (fst (sendMessage_resume text outcome now stamp st)))) = Bot
   \<and> isLoading (chat (step (TimerFires i outcome) s)) = (if i < length (pending s) \<and> snd (pending s ! i) \<le> clock s then False else isLoading (chat s))"
  by (cases outcome) (simp_all add: sendMessage_resume_def sendMessage_try_def sendMessage_catch_def
        sendMessage_finally_def)

subsection \<open>Clearing the chat\<close>

text \<open>
  C9. After \<open>clearChat\<close>, whatever the transcript was, the transcript has exactly one
  element, the welcome message of the bot with id 1; \<open>isOpen\<close> (and \<open>isLoading\<close>) are
  unchanged. The same holds after any schedule of events that ends with a clear.
\<close>

theorem clearChat_resets:
  "messages (clearChat stamp st) =
      [\<lparr>id_msg = 1, text_msg = welcome_text, sender = Bot, timestamp = stamp\<rparr>]
   \<and> length (messages (clearChat stamp st)) = 1
   \<and> isOpen (clearChat stamp st) = isOpen st
   \<and> isLoading (clearChat stamp st) = isLoading st
   \<and> messages (chat (run (es @ [ClearChat]) s)) =
      [\<lparr>id_msg = 1, text_msg = welcome_text, sender = Bot, timestamp = clock (run es s)\<rparr>]
   \<and> isOpen (chat (run (es @ [ClearChat]) s)) = isOpen (chat (run es s))"
proof -
  have r: "run (es @ [ClearChat]) s = step ClearChat (run es s)"
    by (induction es arbitrary: s) simp_all
  show ?thesis by (simp add: r clearChat_def)
qed

subsection \<open>Message identifiers\<close>

text \<open>
  Every event but a clear only appends to the transcript: what was there stays, in
  its order.
\<close>

lemma sendMessage_appends:
  "\<exists>ms. messages (fst (sendMessage text now stamp st)) = messages st @ ms"
  by (simp add: sendMessage_def Let_def)

lemma sendMessage_resume_appends:
  "\<exists>ms. messages (fst (sendMessage_resume text outcome now stamp st)) = messages st @ ms"
  by (cases outcome) (simp_all add: sendMessage_resume_def sendMessage_try_def
      sendMessage_catch_def sendMessage_finally_def)

lemma step_appends:
  assumes "e \<noteq> ClearChat"
  shows "\<exists>ms. messages (chat (step e s)) = messages (chat s) @ ms"
proof (cases e)
  case (Submit t)
  then show ?thesis
    using sendMessage_appends [of t "clock s" "clock s" "chat s"]
    by (auto split: prod.splits option.splits)
next
  case (TimerFires i outcome)
  then show ?thesis
    using sendMessage_resume_appends [of "fst (pending s ! i)" outcome "clock s" "clock s" "chat s"]
    by auto
next
  case ToggleChat
  then show ?thesis by (simp add: toggleChat_def)
next
  case ClearChat
  with assms show ?thesis by simp
next
  case (Tick d)
  then show ?thesis by simp
qed

text \<open>
  C10. Message ids are clock readings: \<open>Date.now()\<close> for a user message and
  \<open>Date.now() + 1\<close> for a bot message. Two submits in the same millisecond give two
  user messages with the same id; a submit one millisecond after a reply gives a user
  message with the id of that reply; and a submit in the millisecond of a reply gives
  a user message whose id is smaller than the id of the reply before it. So the ids
  of a reachable transcript need be neither pairwise distinct nor increasing.
\<close>

theorem transcript_ids_collide:
  "transcript_ids (run [Submit ''a'', Submit ''b''] (store_init 1700000000000))
     = [1, 1700000000000, 1700000000000]
   \<and> \<not> distinct (transcript_ids (run [Submit ''a'', Submit ''b''] (store_init 1700000000000)))
   \<and> transcript_ids (run [Submit ''a'', Tick 1000, TimerFires 0 Resolved, Tick 1, Submit ''b''] (store_init 1700000000000))
     = [1, 1700000000000, 1700000001001, 1700000001001]
   \<and> transcript_ids (run [Submit ''a'', Tick 1000, TimerFires 0 Resolved, Submit ''b''] (store_init 1700000000000))
     = [1, 1700000000000, 1700000001001, 1700000001000]
   \<and> \<not> sorted_wrt (<) (transcript_ids (run [Submit ''a'', Tick 1000, TimerFires 0 Resolved, Submit ''b''] (store_init 1700000000000)))"
  by (simp add: transcript_ids_def store_init_def ChatProvider_init_def sendMessage_def trim_def is_white_space_def
     sendMessage_resume_def sendMessage_try_def sendMessage_catch_def sendMessage_finally_def drop_nth_def Let_def)

end
